theory Spec2Isabelle
  imports Main "HOL-Library.Sublist"
begin

section \<open>The ADS-B to Cursor-on-Target gateway: \<open>adsbcot/commands.py\<close>\<close>

text \<open>
  The module has two functions: \<open>cli\<close>, which resolves the configuration and checks
  that both URLs are present, and the coroutine \<open>main\<close>, which connects to the CoT
  destination, selects the ADS-B worker from the scheme of the source URL, creates the
  tasks and waits for the first of them to complete.

  Both are modelled as functions that return the list of effects they perform, in
  program order, together with their result. What the standard library, \<open>pytak\<close>
  and the worker classes do is not in this module: their answers are fields of an
  environment record.
\<close>

subsection \<open>Python values and strings\<close>

text \<open>
  The values the configuration holds: strings (command line, environment, config file)
  and the \<open>ConfigParser\<close> object built from the filter file, named by that file.
\<close>

datatype pyval = PStr string | PConfigParser string

text \<open>Truth value of the result of \<open>mapping.get(key)\<close>; \<open>None\<close> and \<open>""\<close> are false.\<close>

fun truthy :: "pyval option \<Rightarrow> bool" where
  "truthy None = False"
| "truthy (Some (PStr s)) = (s \<noteq> [])"
| "truthy (Some (PConfigParser f)) = True"

text \<open>\<open>sub in s\<close> on strings: \<open>sub\<close> occurs in \<open>s\<close> as a contiguous substring.\<close>

definition str_in :: "string \<Rightarrow> string \<Rightarrow> bool" where
  "str_in sub s = sublist sub s"

text \<open>\<open>s.split(c)\<close> for a separator of one character: cut at every occurrence.\<close>

fun split_on :: "char \<Rightarrow> string \<Rightarrow> string list" where
  "split_on c [] = [[]]"
| "split_on c (x # xs) =
     (if x = c then [] # split_on c xs
      else (case split_on c xs of
              [] \<Rightarrow> [[x]]
            | w # ws \<Rightarrow> (x # w) # ws))"

subsection \<open>Configuration: \<open>collections.ChainMap\<close>\<close>

text \<open>
  A mapping is modelled by its lookup. A \<open>ChainMap\<close> is the list of its mappings;
  \<open>get\<close> answers from the first mapping that has the key, else \<open>None\<close>.
\<close>

type_synonym mapping = "string \<Rightarrow> pyval option"
type_synonym chainmap = "mapping list"

fun chain_get :: "chainmap \<Rightarrow> string \<Rightarrow> pyval option" where
  "chain_get [] k = None"
| "chain_get (m # ms) k = (case m k of Some v \<Rightarrow> Some v | None \<Rightarrow> chain_get ms k)"

definition str_mapping :: "(string \<Rightarrow> string option) \<Rightarrow> mapping" where
  "str_mapping m k = map_option PStr (m k)"

subsection \<open>Workers, tasks, effects and errors\<close>

record parse_result =
  scheme :: string
  url :: "pyval option"

datatype queue = Tx_queue | Rx_queue | Net_queue

text \<open>The objects \<open>main\<close> constructs, with the arguments it gives them.\<close>

datatype worker =
    EventTransmitter queue
  | EventReceiver queue
  | ADSBWorker queue parse_result "pyval option" "pyval option" "pyval option"
  | ADSBNetReceiver queue parse_result string
  | ADSBNetWorker queue queue string "pyval option" "pyval option"

text \<open>\<open>asyncio.ensure_future(w.run())\<close> makes the task \<open>Run w\<close>.\<close>

datatype task = Run worker

datatype item = Hello_event string

datatype return_when = FIRST_COMPLETED | FIRST_EXCEPTION | ALL_COMPLETED

text \<open>
  The effects, one event for each call:
  \<^item> \<open>Print s\<close>: \<open>print(s)\<close>; \<open>Print_task_completed t\<close>: \<open>print(f"Task completed: {t}")\<close>;
  \<^item> \<open>Protocol_factory u\<close>: \<open>await pytak.protocol_factory(u)\<close>, the connection to the CoT
    destination;
  \<^item> \<open>Construct w\<close>: the constructor call that makes the worker \<open>w\<close>;
  \<^item> \<open>Queue_put q i\<close>: \<open>await q.put(i)\<close>;
  \<^item> \<open>Ensure_future t\<close>: \<open>asyncio.ensure_future\<close>, which creates and schedules the task \<open>t\<close>
    (it is then added to the set \<open>tasks\<close>, kept here as a list in the order of the calls);
  \<^item> \<open>Wait ts rw\<close>: \<open>await asyncio.wait(ts, return_when=rw)\<close>.
\<close>

datatype event =
    Print string
  | Print_task_completed task
  | Protocol_factory parse_result
  | Construct worker
  | Queue_put queue item
  | Ensure_future task
  | Wait "task list" return_when

text \<open>
  What is raised: \<open>PyException\<close> is the \<open>raise Exception\<close> of line 72, \<open>TypeError\<close> the
  call \<open>asyncio.Queue(loop=loop)\<close> of line 74 where \<open>Queue\<close> has no such keyword,
  \<open>ValueError\<close> the unpacking of line 77, \<open>UnboundLocalError\<close> the read of an unassigned local (line 95),
  \<open>KeyError\<close> the subscript \<open>config["adsbcot"]\<close>, \<open>Protocol_factory_error\<close> whatever
  \<open>pytak.protocol_factory\<close> raises when it cannot connect, and \<open>SystemExit n\<close> is
  \<open>sys.exit(n)\<close>.
\<close>

datatype error =
    PyException
  | TypeError
  | ValueError
  | UnboundLocalError
  | KeyError string
  | Protocol_factory_error
  | SystemExit nat

subsection \<open>The environment of \<open>main\<close>\<close>

text \<open>
  \<^item> \<open>with_pymodes\<close>: the module-level flag, true when \<open>import pyModeS\<close> succeeded;
  \<^item> \<open>urlparse\<close>: \<open>urllib.parse.urlparse\<close>;
  \<^item> \<open>protocol_factory\<close>: whether \<open>pytak.protocol_factory\<close> returns a reader and a
    writer for the parsed CoT URL (otherwise it raises);
  \<^item> \<open>queue_accepts_loop\<close>: whether \<open>asyncio.Queue\<close> takes the keyword \<open>loop\<close>, as it does up
    to Python 3.9; from Python 3.10 on, which the version tests of the module admit,
    \<open>asyncio.Queue(loop=loop)\<close> raises \<open>TypeError\<close>;
  \<^item> \<open>put_suspends\<close>: whether \<open>await tx_queue.put(...)\<close> hands control to the event loop;
    \<open>asyncio.Queue.put\<close> waits only while the queue is full, and \<open>tx_queue\<close> has no bound;
  \<^item> \<open>node\<close>: \<open>platform.node()\<close>;
  \<^item> \<open>wait_done\<close>: the set \<open>done\<close> that \<open>asyncio.wait\<close> returns for the tasks given.
\<close>

record main_env =
  with_pymodes :: bool
  urlparse :: "pyval option \<Rightarrow> parse_result"
  protocol_factory :: "parse_result \<Rightarrow> bool"
  queue_accepts_loop :: bool
  put_suspends :: bool
  node :: string
  wait_done :: "task list \<Rightarrow> task list"

subsection \<open>\<open>main\<close>, lines 57 to 91: the ADS-B workers\<close>

text \<open>
  Lines 76 to 79:
  \<^verbatim>\<open>
  if "+" in dump1090_url.scheme:
      _, data_type = dump1090_url.scheme.split("+")
  else:
      data_type = "raw"
  \<close>
  Unpacking into two names raises \<open>ValueError\<close> unless the list has two elements.
\<close>

definition data_type_of :: "string \<Rightarrow> error + string" where
  "data_type_of sch =
     (if str_in ''+'' sch then
        (case split_on (CHR ''+'') sch of
           [u, data_type] \<Rightarrow> Inr data_type
         | _ \<Rightarrow> Inl ValueError)
      else Inr ''raw'')"

text \<open>
  The state after the branch: the tasks added so far and \<open>message_worker\<close>, which
  is unbound (\<open>None\<close>) when neither branch ran. In the \<open>tcp\<close> branch the order is that of
  lines 67 to 91: the decoder test, the queue \<open>net_queue\<close> (line 74, which raises where
  \<open>asyncio.Queue\<close> does not take \<open>loop\<close>), the tag, the Net Receiver, its task, the stream
  worker.
\<close>

record selection =
  tasks :: "task list"
  message_worker :: "worker option"

definition pymodes_diagnostic :: "event list" where
  "pymodes_diagnostic =
     [Print ''ERROR from adsbcot'',
      Print ''Please reinstall adsbcot with pyModeS support: '',
      Print ''$ pip3 install -U adsbcot[with_pymodes]'',
      Print ''Exiting...'']"

definition adsb_workers ::
  "main_env \<Rightarrow> chainmap \<Rightarrow> parse_result \<Rightarrow> event list \<times> (error + selection)" where
  "adsb_workers env opts dump1090_url =
     (if str_in ''http'' (scheme dump1090_url) then
        (let w = ADSBWorker Tx_queue dump1090_url (chain_get opts ''POLL_INTERVAL'')
                   (chain_get opts ''COT_STALE'') (chain_get opts ''FILTERS'')
         in ([Construct w], Inr \<lparr>tasks = [], message_worker = Some w\<rparr>))
      else if str_in ''tcp'' (scheme dump1090_url) then
        (if \<not> with_pymodes env then (pymodes_diagnostic, Inl PyException)
         else if \<not> queue_accepts_loop env then ([], Inl TypeError)
         else
           (case data_type_of (scheme dump1090_url) of
              Inl e \<Rightarrow> ([], Inl e)
            | Inr data_type \<Rightarrow>
                (let adsbnetreceiver = ADSBNetReceiver Net_queue dump1090_url data_type;
                     w = ADSBNetWorker Tx_queue Net_queue data_type
                           (chain_get opts ''COT_STALE'') (chain_get opts ''FILTERS'')
                 in ([Construct adsbnetreceiver, Ensure_future (Run adsbnetreceiver),
                      Construct w],
                     Inr \<lparr>tasks = [Run adsbnetreceiver], message_worker = Some w\<rparr>))))
      else ([], Inr \<lparr>tasks = [], message_worker = None\<rparr>))"

subsection \<open>\<open>main\<close>\<close>

text \<open>
  Line 95 reads \<open>message_worker\<close> before it calls \<open>asyncio.ensure_future\<close>: when the name is
  unbound, \<open>UnboundLocalError\<close> is raised and no task is started there.
\<close>

definition hello :: "main_env \<Rightarrow> event" where
  "hello env = Queue_put Tx_queue (Hello_event (''adsbxcot@'' @ node env))"

definition main :: "main_env \<Rightarrow> chainmap \<Rightarrow> event list \<times> (error + unit)" where
  "main env opts =
     (let cot_url = urlparse env (chain_get opts ''COT_URL'') in
      if \<not> protocol_factory env cot_url then
        ([Protocol_factory cot_url], Inl Protocol_factory_error)
      else
        (let write_worker = EventTransmitter Tx_queue;
             read_worker = EventReceiver Rx_queue;
             t0 = [Protocol_factory cot_url, Construct write_worker, Construct read_worker];
             dump1090_url = urlparse env (chain_get opts ''DUMP1090_URL'')
         in (case adsb_workers env opts dump1090_url of
               (t1, Inl e) \<Rightarrow> (t0 @ t1, Inl e)
             | (t1, Inr sel) \<Rightarrow>
                 (case message_worker sel of
                    None \<Rightarrow> (t0 @ t1 @ [hello env], Inl UnboundLocalError)
                  | Some w \<Rightarrow>
                      (let new_tasks = [Run w, Run read_worker, Run write_worker];
                           ts = tasks sel @ new_tasks
                       in (t0 @ t1 @ [hello env] @ map Ensure_future new_tasks
                             @ [Wait ts FIRST_COMPLETED]
                             @ map Print_task_completed (wait_done env ts),
                           Inr ()))))))"

text \<open>Shorthand for the two parsed URLs and for the workers, as \<open>main\<close> builds them.\<close>

abbreviation cot_url_of :: "main_env \<Rightarrow> chainmap \<Rightarrow> parse_result" where
  "cot_url_of env opts \<equiv> urlparse env (chain_get opts ''COT_URL'')"

abbreviation dump1090_url_of :: "main_env \<Rightarrow> chainmap \<Rightarrow> parse_result" where
  "dump1090_url_of env opts \<equiv> urlparse env (chain_get opts ''DUMP1090_URL'')"

abbreviation poll_worker :: "chainmap \<Rightarrow> parse_result \<Rightarrow> worker" where
  "poll_worker opts d \<equiv>
     ADSBWorker Tx_queue d (chain_get opts ''POLL_INTERVAL'')
       (chain_get opts ''COT_STALE'') (chain_get opts ''FILTERS'')"

abbreviation stream_worker :: "chainmap \<Rightarrow> string \<Rightarrow> worker" where
  "stream_worker opts dt \<equiv>
     ADSBNetWorker Tx_queue Net_queue dt (chain_get opts ''COT_STALE'') (chain_get opts ''FILTERS'')"

subsection \<open>\<open>cli\<close>\<close>

text \<open>
  What \<open>cli\<close> reads from outside:
  \<^item> \<open>config_file\<close>: the value of \<open>-c\<close>/\<open>--CONFIG_FILE\<close> (default \<open>config.ini\<close>), the only
    entry of \<open>cli_args\<close>;
  \<^item> \<open>environ\<close>: \<open>os.environ\<close>;
  \<^item> \<open>config_adsbcot\<close>: the section \<open>config["adsbcot"]\<close> after \<open>config.read\<close>, as its
    lookup; \<open>None\<close> when the file has no such section, where the subscript raises
    \<open>KeyError\<close>;
  \<^item> \<open>runtime\<close>: the environment of \<open>main\<close>.
\<close>

record cli_env =
  config_file :: string
  environ :: "string \<Rightarrow> string option"
  config_adsbcot :: "(string \<Rightarrow> string option) option"
  runtime :: main_env

definition cli_args :: "cli_env \<Rightarrow> mapping" where
  "cli_args env k = (if k = ''CONFIG_FILE'' then Some (PStr (config_file env)) else None)"

text \<open>\<open>print(x)\<close> writes \<open>str(x)\<close>.\<close>

fun py_str :: "pyval \<Rightarrow> string" where
  "py_str (PStr s) = s"
| "py_str (PConfigParser f) = ''<configparser.ConfigParser object>''"

definition filters_mapping :: "pyval \<Rightarrow> mapping" where
  "filters_mapping filter_file k =
     (if k = ''FILTERS'' then Some (PConfigParser (py_str filter_file)) else None)"

text \<open>Lines 115 to 132: the combined configuration, with the filters when a filter file is named.\<close>

definition resolve_config :: "cli_env \<Rightarrow> event list \<times> (error + chainmap)" where
  "resolve_config env =
     (case config_adsbcot env of
        None \<Rightarrow> ([], Inl (KeyError ''adsbcot''))
      | Some section \<Rightarrow>
          (let combined_config =
                 [cli_args env, str_mapping (environ env), str_mapping section]
           in (case chain_get combined_config ''FILTER_FILE'' of
                 None \<Rightarrow> ([], Inr combined_config)
               | Some filter_file \<Rightarrow>
                   (if truthy (Some filter_file) then
                      ([Print (py_str filter_file)],
                       Inr (combined_config @ [filters_mapping filter_file]))
                    else ([], Inr combined_config)))))"

text \<open>The apostrophe of the two messages.\<close>

definition apostrophe :: string where
  "apostrophe = [CHR 0x27]"

definition cot_url_diagnostic :: "event list" where
  "cot_url_diagnostic =
     [Print (''Please specify a CoT Destination URL, for example: '' @ apostrophe
             @ ''-U tcp:takserver.example.com:8087'' @ apostrophe),
      Print ''See -h for help.'']"

definition dump1090_url_diagnostic :: "event list" where
  "dump1090_url_diagnostic =
     [Print (''Please specify a Dump1090 Source URL, for example: '' @ apostrophe
             @ ''-D tcp+beast:piaware.example.com:30005'' @ apostrophe),
      Print ''See -h for help.'']"

definition cli :: "cli_env \<Rightarrow> event list \<times> (error + unit)" where
  "cli env =
     (case resolve_config env of
        (t0, Inl e) \<Rightarrow> (t0, Inl e)
      | (t0, Inr combined_config) \<Rightarrow>
          (if \<not> truthy (chain_get combined_config ''COT_URL'') then
             (t0 @ cot_url_diagnostic, Inl (SystemExit 1))
           else if \<not> truthy (chain_get combined_config ''DUMP1090_URL'') then
             (t0 @ dump1090_url_diagnostic, Inl (SystemExit 1))
           else
             (case main (runtime env) combined_config of
                (t, r) \<Rightarrow> (t0 @ t, r))))"

text \<open>
  The status the interpreter exits with: 0 when the program returns, the argument of
  \<open>sys.exit\<close>, and 1 for an exception nobody catches.
\<close>

fun exit_status :: "error + unit \<Rightarrow> nat" where
  "exit_status (Inr u) = 0"
| "exit_status (Inl (SystemExit n)) = n"
| "exit_status (Inl e) = 1"

subsection \<open>Reading a trace\<close>

fun is_print :: "event \<Rightarrow> bool" where
  "is_print (Print s) = True"
| "is_print e = False"

fun is_protocol_factory :: "event \<Rightarrow> bool" where
  "is_protocol_factory (Protocol_factory u) = True"
| "is_protocol_factory e = False"

fun is_ensure_future :: "event \<Rightarrow> bool" where
  "is_ensure_future (Ensure_future t) = True"
| "is_ensure_future e = False"

fun is_queue_put :: "event \<Rightarrow> bool" where
  "is_queue_put (Queue_put q i) = True"
| "is_queue_put e = False"

text \<open>The ingestion worker is the poll worker or the stream worker.\<close>

fun is_source_worker :: "worker \<Rightarrow> bool" where
  "is_source_worker (ADSBWorker q u p c f) = True"
| "is_source_worker (ADSBNetWorker q n d c f) = True"
| "is_source_worker w = False"

fun is_net_receiver :: "worker \<Rightarrow> bool" where
  "is_net_receiver (ADSBNetReceiver q u d) = True"
| "is_net_receiver w = False"

fun starts :: "(worker \<Rightarrow> bool) \<Rightarrow> event \<Rightarrow> bool" where
  "starts P (Ensure_future (Run w)) = P w"
| "starts P e = False"

text \<open>The workers constructed, the tasks started and the task sets waited on, in order.\<close>

fun constructed :: "event list \<Rightarrow> worker list" where
  "constructed [] = []"
| "constructed (Construct w # es) = w # constructed es"
| "constructed (e # es) = constructed es"

fun started :: "event list \<Rightarrow> task list" where
  "started [] = []"
| "started (Ensure_future t # es) = t # started es"
| "started (e # es) = started es"

fun waited :: "event list \<Rightarrow> (task list \<times> return_when) list" where
  "waited [] = []"
| "waited (Wait ts rw # es) = (ts, rw) # waited es"
| "waited (e # es) = waited es"

text \<open>The part of a trace before the first event with a property, and the part after that event.\<close>

definition before :: "(event \<Rightarrow> bool) \<Rightarrow> event list \<Rightarrow> event list" where
  "before P tr = takeWhile (\<lambda>e. \<not> P e) tr"

definition after :: "(event \<Rightarrow> bool) \<Rightarrow> event list \<Rightarrow> event list" where
  "after P tr = tl (dropWhile (\<lambda>e. \<not> P e) tr)"

fun is_wait :: "event \<Rightarrow> bool" where
  "is_wait (Wait ts rw) = True"
| "is_wait e = False"

subsection \<open>Where \<open>main\<close> gives up control\<close>


subsection \<open>The tag as the specification words it\<close>

text \<open>
  The specification takes the sub-format tag to be the substring after the \<open>+\<close> of the
  scheme, and \<open>raw\<close> when the scheme has no \<open>+\<close>. This definition follows those words
  (after the first \<open>+\<close>, should there be several); \<open>data_type_of\<close> is what the code
  computes.
\<close>

definition spec_data_type :: "string \<Rightarrow> string" where
  "spec_data_type sch =
     (if CHR ''+'' \<in> set sch then tl (dropWhile (\<lambda>c. c \<noteq> CHR ''+'') sch) else ''raw'')"

subsection \<open>Example runs\<close>

text \<open>
  The example environment is Python 3.9 or earlier with a reachable destination; the flag
  says whether pyModeS is installed.
\<close>

text \<open>A \<open>urlparse\<close> for URLs of the form \<open>scheme:rest\<close>: the scheme is the text before the first colon.\<close>

definition example_urlparse :: "pyval option \<Rightarrow> parse_result" where
  "example_urlparse v =
     (case v of
        Some (PStr u) \<Rightarrow> \<lparr>scheme = takeWhile (\<lambda>c. c \<noteq> CHR '':'') u, url = v\<rparr>
      | _ \<Rightarrow> \<lparr>scheme = [], url = v\<rparr>)"

definition example_env :: "bool \<Rightarrow> main_env" where
  "example_env pymodes =
     \<lparr>with_pymodes = pymodes, urlparse = example_urlparse,
      protocol_factory = (\<lambda>u. True), queue_accepts_loop = True, put_suspends = False,
      node = ''gw'', wait_done = take 1\<rparr>"

definition example_opts :: "string \<Rightarrow> chainmap" where
  "example_opts dump1090 =
     [str_mapping (map_of [(''COT_URL'', ''tcp://takserver.example.com:8087''),
                           (''DUMP1090_URL'', dump1090)])]"

definition example_cli_env :: "(string \<times> string) list \<Rightarrow> cli_env" where
  "example_cli_env section =
     \<lparr>config_file = ''config.ini'', environ = (\<lambda>k. None),
      config_adsbcot = Some (map_of section), runtime = example_env True\<rparr>"

text \<open>The configurations of the example runs, by their source URL.\<close>

abbreviation beast_opts :: chainmap where
  "beast_opts \<equiv> example_opts ''tcp+beast://piaware.example.com:30005''"

abbreviation two_plus_opts :: chainmap where
  "two_plus_opts \<equiv> example_opts ''tcp+beast+x://piaware.example.com:30005''"

abbreviation raw_opts :: chainmap where
  "raw_opts \<equiv> example_opts ''tcp://piaware.example.com:30005''"

abbreviation https_opts :: chainmap where
  "https_opts \<equiv> example_opts ''https://piaware.example.com/data/aircraft.json''"

abbreviation http_opts :: chainmap where
  "http_opts \<equiv> example_opts ''http://piaware.example.com/data/aircraft.json''"

abbreviation udp_opts :: chainmap where
  "udp_opts \<equiv> example_opts ''udp://piaware.example.com:30005''"

abbreviation tcp_https_opts :: chainmap where
  "tcp_https_opts \<equiv> example_opts ''tcp+https://piaware.example.com/data.json''"

text \<open>A command line whose config file has only the source URL in its \<open>[adsbcot]\<close> section.\<close>

abbreviation only_source_env :: cli_env where
  "only_source_env \<equiv>
     example_cli_env [(''DUMP1090_URL'', ''tcp+beast://piaware.example.com:30005'')]"

section \<open>The runs of \<open>main\<close>\<close>

text \<open>
  \<open>main\<close> has seven kinds of run, told apart by the connection to the destination, the
  scheme of the source URL, the decoder flag, the keyword of \<open>asyncio.Queue\<close> and the tag read
  from the scheme. Each lemma
  gives the whole trace and the result of one kind.
\<close>

lemma main_connect_failed:
  "\<not> protocol_factory env (cot_url_of env opts) \<Longrightarrow>
   main env opts = ([Protocol_factory (cot_url_of env opts)], Inl Protocol_factory_error)"
  by (simp add: main_def)

lemma main_poll:
  assumes "protocol_factory env (cot_url_of env opts)"
    and "str_in ''http'' (scheme (dump1090_url_of env opts))"
  shows "main env opts =
    ([Protocol_factory (cot_url_of env opts),
      Construct (EventTransmitter Tx_queue), Construct (EventReceiver Rx_queue),
      Construct (poll_worker opts (dump1090_url_of env opts)),
      hello env,
      Ensure_future (Run (poll_worker opts (dump1090_url_of env opts))),
      Ensure_future (Run (EventReceiver Rx_queue)),
      Ensure_future (Run (EventTransmitter Tx_queue)),
      Wait [Run (poll_worker opts (dump1090_url_of env opts)),
            Run (EventReceiver Rx_queue), Run (EventTransmitter Tx_queue)] FIRST_COMPLETED]
     @ map Print_task_completed
         (wait_done env [Run (poll_worker opts (dump1090_url_of env opts)),
            Run (EventReceiver Rx_queue), Run (EventTransmitter Tx_queue)]),
     Inr ())"
  using assms by (simp add: main_def adsb_workers_def Let_def)

lemma main_no_decoder:
  assumes "protocol_factory env (cot_url_of env opts)"
    and "\<not> str_in ''http'' (scheme (dump1090_url_of env opts))"
    and "str_in ''tcp'' (scheme (dump1090_url_of env opts))"
    and "\<not> with_pymodes env"
  shows "main env opts =
    ([Protocol_factory (cot_url_of env opts),
      Construct (EventTransmitter Tx_queue), Construct (EventReceiver Rx_queue)]
     @ pymodes_diagnostic, Inl PyException)"
  using assms by (simp add: main_def adsb_workers_def Let_def)

lemma main_no_loop_keyword:
  assumes "protocol_factory env (cot_url_of env opts)"
    and "\<not> str_in ''http'' (scheme (dump1090_url_of env opts))"
    and "str_in ''tcp'' (scheme (dump1090_url_of env opts))"
    and "with_pymodes env"
    and "\<not> queue_accepts_loop env"
  shows "main env opts =
    ([Protocol_factory (cot_url_of env opts),
      Construct (EventTransmitter Tx_queue), Construct (EventReceiver Rx_queue)],
     Inl TypeError)"
  using assms by (simp add: main_def adsb_workers_def Let_def)

lemma main_bad_tag:
  assumes "protocol_factory env (cot_url_of env opts)"
    and "\<not> str_in ''http'' (scheme (dump1090_url_of env opts))"
    and "str_in ''tcp'' (scheme (dump1090_url_of env opts))"
    and "with_pymodes env"
    and "queue_accepts_loop env"
    and "data_type_of (scheme (dump1090_url_of env opts)) = Inl e"
  shows "main env opts =
    ([Protocol_factory (cot_url_of env opts),
      Construct (EventTransmitter Tx_queue), Construct (EventReceiver Rx_queue)], Inl e)"
  using assms by (simp add: main_def adsb_workers_def Let_def)

lemma main_stream:
  assumes "protocol_factory env (cot_url_of env opts)"
    and "\<not> str_in ''http'' (scheme (dump1090_url_of env opts))"
    and "str_in ''tcp'' (scheme (dump1090_url_of env opts))"
    and "with_pymodes env"
    and "queue_accepts_loop env"
    and "data_type_of (scheme (dump1090_url_of env opts)) = Inr dt"
  shows "main env opts =
    ([Protocol_factory (cot_url_of env opts),
      Construct (EventTransmitter Tx_queue), Construct (EventReceiver Rx_queue),
      Construct (ADSBNetReceiver Net_queue (dump1090_url_of env opts) dt),
      Ensure_future (Run (ADSBNetReceiver Net_queue (dump1090_url_of env opts) dt)),
      Construct (stream_worker opts dt),
      hello env,
      Ensure_future (Run (stream_worker opts dt)),
      Ensure_future (Run (EventReceiver Rx_queue)),
      Ensure_future (Run (EventTransmitter Tx_queue)),
      Wait [Run (ADSBNetReceiver Net_queue (dump1090_url_of env opts) dt),
            Run (stream_worker opts dt),
            Run (EventReceiver Rx_queue), Run (EventTransmitter Tx_queue)] FIRST_COMPLETED]
     @ map Print_task_completed
         (wait_done env [Run (ADSBNetReceiver Net_queue (dump1090_url_of env opts) dt),
            Run (stream_worker opts dt),
            Run (EventReceiver Rx_queue), Run (EventTransmitter Tx_queue)]),
     Inr ())"
  using assms by (simp add: main_def adsb_workers_def Let_def)

lemma main_other:
  assumes "protocol_factory env (cot_url_of env opts)"
    and "\<not> str_in ''http'' (scheme (dump1090_url_of env opts))"
    and "\<not> str_in ''tcp'' (scheme (dump1090_url_of env opts))"
  shows "main env opts =
    ([Protocol_factory (cot_url_of env opts),
      Construct (EventTransmitter Tx_queue), Construct (EventReceiver Rx_queue),
      hello env], Inl UnboundLocalError)"
  using assms by (simp add: main_def adsb_workers_def Let_def)

subsection \<open>Strings\<close>

lemma str_in_single: "str_in [c] s \<longleftrightarrow> c \<in> set s"
  by (induction s) (auto simp: str_in_def sublist_Cons_right)

lemma split_on_no_sep: "c \<notin> set s \<Longrightarrow> split_on c s = [s]"
  by (induction s) auto

lemma split_on_append:
  "c \<notin> set pre \<Longrightarrow> split_on c (pre @ c # suf) = pre # split_on c suf"
  by (induction pre) auto

lemma split_on_length: "length (split_on c s) = Suc (count_list s c)"
  by (induction s) (auto split: list.splits)

lemma data_type_of_one_plus:
  "CHR ''+'' \<notin> set pre \<Longrightarrow> CHR ''+'' \<notin> set suf \<Longrightarrow>
   data_type_of (pre @ ''+'' @ suf) = Inr suf"
  by (simp add: data_type_of_def str_in_single split_on_append split_on_no_sep)

lemma data_type_of_no_plus:
  "CHR ''+'' \<notin> set s \<Longrightarrow> data_type_of s = Inr ''raw''"
  by (simp add: data_type_of_def str_in_single)


lemma data_type_of_Inr_iff:
  "(\<exists>dt. data_type_of s = Inr dt) \<longleftrightarrow> count_list s (CHR ''+'') \<le> 1"
proof (cases "CHR ''+'' \<in> set s")
  case False
  then show ?thesis by (simp add: data_type_of_no_plus)
next
  case True
  have len: "length (split_on (CHR ''+'') s) = Suc (count_list s (CHR ''+''))"
    by (rule split_on_length)
  from True have pos: "0 < count_list s (CHR ''+'')"
    by (induction s) auto
  show ?thesis
  proof (cases "split_on (CHR ''+'') s")
    case Nil
    with len show ?thesis by simp
  next
    case (Cons a as)
    note c1 = Cons
    show ?thesis
    proof (cases as)
      case Nil
      with c1 len pos show ?thesis by simp
    next
      case (Cons b bs)
      with c1 len True show ?thesis
        by (cases bs) (auto simp: data_type_of_def str_in_single)
    qed
  qed
qed

lemma main_cases
  [case_names connect_failed poll no_decoder no_loop_keyword bad_tag stream other]:
  obtains "\<not> protocol_factory env (cot_url_of env opts)"
  | "protocol_factory env (cot_url_of env opts)"
    "str_in ''http'' (scheme (dump1090_url_of env opts))"
  | "protocol_factory env (cot_url_of env opts)"
    "\<not> str_in ''http'' (scheme (dump1090_url_of env opts))"
    "str_in ''tcp'' (scheme (dump1090_url_of env opts))"
    "\<not> with_pymodes env"
  | "protocol_factory env (cot_url_of env opts)"
    "\<not> str_in ''http'' (scheme (dump1090_url_of env opts))"
    "str_in ''tcp'' (scheme (dump1090_url_of env opts))"
    "with_pymodes env"
    "\<not> queue_accepts_loop env"
  | e where "protocol_factory env (cot_url_of env opts)"
    "\<not> str_in ''http'' (scheme (dump1090_url_of env opts))"
    "str_in ''tcp'' (scheme (dump1090_url_of env opts))"
    "with_pymodes env"
    "queue_accepts_loop env"
    "data_type_of (scheme (dump1090_url_of env opts)) = Inl e"
  | dt where "protocol_factory env (cot_url_of env opts)"
    "\<not> str_in ''http'' (scheme (dump1090_url_of env opts))"
    "str_in ''tcp'' (scheme (dump1090_url_of env opts))"
    "with_pymodes env"
    "queue_accepts_loop env"
    "data_type_of (scheme (dump1090_url_of env opts)) = Inr dt"
  | "protocol_factory env (cot_url_of env opts)"
    "\<not> str_in ''http'' (scheme (dump1090_url_of env opts))"
    "\<not> str_in ''tcp'' (scheme (dump1090_url_of env opts))"
  by (cases "data_type_of (scheme (dump1090_url_of env opts))") blast+

text \<open>\<open>main\<close> returns normally on exactly the inputs of the cases \<open>poll\<close> and \<open>stream\<close>.\<close>

lemma main_returns_iff:
  "snd (main env opts) = Inr () \<longleftrightarrow>
     protocol_factory env (cot_url_of env opts)
     \<and> (str_in ''http'' (scheme (dump1090_url_of env opts))
        \<or> (str_in ''tcp'' (scheme (dump1090_url_of env opts)) \<and> with_pymodes env
            \<and> queue_accepts_loop env
            \<and> count_list (scheme (dump1090_url_of env opts)) (CHR ''+'') \<le> 1))"
proof (cases rule: main_cases [of env opts])
  case connect_failed
  then show ?thesis by (simp add: main_connect_failed)
next
  case poll
  then show ?thesis by (simp add: main_poll)
next
  case no_decoder
  then show ?thesis by (simp add: main_no_decoder)
next
  case no_loop_keyword
  then show ?thesis by (simp add: main_no_loop_keyword)
next
  case (bad_tag e)
  then have "\<not> (\<exists>dt. data_type_of (scheme (dump1090_url_of env opts)) = Inr dt)"
    by simp
  then have "\<not> count_list (scheme (dump1090_url_of env opts)) (CHR ''+'') \<le> 1"
    unfolding data_type_of_Inr_iff .
  with bad_tag show ?thesis by (simp add: main_bad_tag)
next
  case (stream dt)
  then have "\<exists>dt. data_type_of (scheme (dump1090_url_of env opts)) = Inr dt"
    by simp
  then have "count_list (scheme (dump1090_url_of env opts)) (CHR ''+'') \<le> 1"
    unfolding data_type_of_Inr_iff .
  with stream show ?thesis by (simp add: main_stream)
next
  case other
  then show ?thesis by (simp add: main_other)
qed

lemma started_append: "started (xs @ ys) = started xs @ started ys"
  by (induction xs rule: started.induct) simp_all

lemma constructed_append: "constructed (xs @ ys) = constructed xs @ constructed ys"
  by (induction xs rule: constructed.induct) simp_all

lemma waited_append: "waited (xs @ ys) = waited xs @ waited ys"
  by (induction xs rule: waited.induct) simp_all

lemma reports_only:
  "started (map Print_task_completed ts) = []"
  "constructed (map Print_task_completed ts) = []"
  "waited (map Print_task_completed ts) = []"
  "filter is_queue_put (map Print_task_completed ts) = []"
  by (induction ts) simp_all

subsection \<open>The tag read from the scheme\<close>

lemma split_on_one:
  "count_list s c = 1 \<Longrightarrow>
   split_on c s = [takeWhile (\<lambda>x. x \<noteq> c) s, tl (dropWhile (\<lambda>x. x \<noteq> c) s)]"
proof (induction s)
  case Nil
  then show ?case by simp
next
  case (Cons x xs)
  show ?case
  proof (cases "x = c")
    case True
    with Cons.prems have "count_list xs c = 0" by simp
    then have "c \<notin> set xs" by (simp add: count_list_0_iff)
    with True show ?thesis by (simp add: split_on_no_sep)
  next
    case False
    with Cons show ?thesis by simp
  qed
qed

lemma data_type_of_spec:
  assumes "count_list sch (CHR ''+'') \<le> 1"
  shows "data_type_of sch = Inr (spec_data_type sch)"
proof (cases "CHR ''+'' \<in> set sch")
  case False
  then show ?thesis by (simp add: data_type_of_no_plus spec_data_type_def)
next
  case True
  then have "count_list sch (CHR ''+'') \<noteq> 0" by (simp add: count_list_0_iff)
  with assms have "count_list sch (CHR ''+'') = 1" by simp
  from split_on_one [OF this] True show ?thesis
    by (simp add: data_type_of_def str_in_single spec_data_type_def)
qed

lemma data_type_of_Inr_spec:
  assumes "data_type_of sch = Inr dt"
  shows "dt = spec_data_type sch"
proof -
  from assms have "\<exists>d. data_type_of sch = Inr d" ..
  then have "count_list sch (CHR ''+'') \<le> 1"
    unfolding data_type_of_Inr_iff .
  from data_type_of_spec [OF this] assms show ?thesis by simp
qed

subsection \<open>Traces of \<open>cli\<close> before \<open>main\<close>\<close>

lemma resolve_config_prints: "list_all is_print (fst (resolve_config env))"
  by (simp add: resolve_config_def Let_def split: option.splits)

lemma prints_only:
  assumes "list_all is_print tr"
  shows "constructed tr = []" and "started tr = []" and "filter is_protocol_factory tr = []"
  using assms
  by (induction tr rule: constructed.induct) simp_all

lemma cli_runs_main:
  assumes "resolve_config env = (t0, Inr combined_config)"
    and "truthy (chain_get combined_config ''COT_URL'')"
    and "truthy (chain_get combined_config ''DUMP1090_URL'')"
  shows "cli env = (t0 @ fst (main (runtime env) combined_config),
                    snd (main (runtime env) combined_config))"
  using assms by (simp add: cli_def split: prod.splits)

subsection \<open>The example runs\<close>

lemma example_connects: "protocol_factory (example_env b) u"
  by (simp add: example_env_def)

lemma example_scheme:
  "scheme (dump1090_url_of (example_env b) (example_opts u)) = takeWhile (\<lambda>c. c \<noteq> CHR '':'') u"
  by (simp add: example_env_def example_opts_def example_urlparse_def str_mapping_def)

lemma example_cot_url:
  "cot_url_of (example_env b) (example_opts u) =
     \<lparr>scheme = ''tcp'', url = Some (PStr ''tcp://takserver.example.com:8087'')\<rparr>"
  by (simp add: example_env_def example_opts_def example_urlparse_def str_mapping_def)

lemmas str_in_eval = str_in_def sublist_code prefix_code

text \<open>
  A scheme with two \<open>+\<close>: \<open>split\<close> gives three parts, the unpacking of line 77 raises, and
  the run ends before the Net Receiver is constructed.
\<close>

lemma two_plus_raises:
  "scheme (dump1090_url_of (example_env True) two_plus_opts) = ''tcp+beast+x''
   \<and> split_on (CHR ''+'') ''tcp+beast+x'' = [''tcp'', ''beast'', ''x'']
   \<and> data_type_of ''tcp+beast+x'' = Inl ValueError
   \<and> main (example_env True) two_plus_opts =
       ([Protocol_factory
           \<lparr>scheme = ''tcp'', url = Some (PStr ''tcp://takserver.example.com:8087'')\<rparr>,
         Construct (EventTransmitter Tx_queue), Construct (EventReceiver Rx_queue)],
        Inl ValueError)"
proof -
  let ?env = "example_env True"
  let ?opts = "two_plus_opts"
  have sch: "scheme (dump1090_url_of ?env ?opts) = ''tcp+beast+x''"
    by (simp add: example_scheme)
  have sp: "split_on (CHR ''+'') ''tcp+beast+x'' = [''tcp'', ''beast'', ''x'']"
    by simp
  have dt: "data_type_of ''tcp+beast+x'' = Inl ValueError"
    by (simp add: data_type_of_def str_in_eval)
  have nh: "\<not> str_in ''http'' (scheme (dump1090_url_of ?env ?opts))"
    unfolding sch by (simp add: str_in_eval)
  have t: "str_in ''tcp'' (scheme (dump1090_url_of ?env ?opts))"
    unfolding sch by (simp add: str_in_eval)
  have py: "with_pymodes ?env" by (simp add: example_env_def)
  have ql: "queue_accepts_loop ?env" by (simp add: example_env_def)
  have dt': "data_type_of (scheme (dump1090_url_of ?env ?opts)) = Inl ValueError"
    unfolding sch by (rule dt)
  have m: "main ?env ?opts =
      ([Protocol_factory (cot_url_of ?env ?opts),
        Construct (EventTransmitter Tx_queue), Construct (EventReceiver Rx_queue)],
       Inl ValueError)"
    by (rule main_bad_tag [OF example_connects nh t py ql dt'])
  from m sch sp dt show ?thesis
    by (simp add: example_cot_url)
qed

text \<open>
  Where \<open>asyncio.Queue\<close> does not take \<open>loop\<close> (Python 3.10 and later), every run for a
  scheme with \<open>tcp\<close> and not \<open>http\<close> that passes the decoder gate ends at line 74.
\<close>

lemma no_loop_keyword_raises:
  assumes "\<not> queue_accepts_loop env"
    and "\<not> str_in ''http'' (scheme (dump1090_url_of env opts))"
    and "str_in ''tcp'' (scheme (dump1090_url_of env opts))"
    and "with_pymodes env"
  shows "snd (main env opts) = Inl (if protocol_factory env (cot_url_of env opts)
                                     then TypeError else Protocol_factory_error)
    \<and> started (fst (main env opts)) = []"
  using assms by (simp add: main_no_loop_keyword main_connect_failed)

section \<open>The claims\<close>

subsection \<open>C1: a stream source without the decoder\<close>

text \<open>
  C1 as stated fails. It says that with a tcp-family scheme and no pyModeS the process
  prints the diagnostic and terminates before it connects to the CoT destination. In
  \<open>main\<close> the call of \<open>pytak.protocol_factory\<close> (line 48) comes before the test of the
  scheme and of \<open>with_pymodes\<close> (lines 66 and 67): in the run below the destination is
  connected, and the transmitter and the receiver are constructed, before the first line of
  the diagnostic is printed.
\<close>

theorem missing_decoder_connects_first:
  "str_in ''tcp'' (scheme (dump1090_url_of (example_env False) raw_opts))
   \<and> \<not> with_pymodes (example_env False)
   \<and> main (example_env False) raw_opts =
       ([Protocol_factory
           \<lparr>scheme = ''tcp'', url = Some (PStr ''tcp://takserver.example.com:8087'')\<rparr>,
         Construct (EventTransmitter Tx_queue), Construct (EventReceiver Rx_queue),
         Print ''ERROR from adsbcot'',
         Print ''Please reinstall adsbcot with pyModeS support: '',
         Print ''$ pip3 install -U adsbcot[with_pymodes]'',
         Print ''Exiting...''], Inl PyException)
   \<and> list_ex is_protocol_factory
        (before is_print (fst (main (example_env False) raw_opts)))"
proof -
  let ?env = "example_env False" and ?opts = "raw_opts"
  have sch: "scheme (dump1090_url_of ?env ?opts) = ''tcp''"
    by (simp add: example_scheme)
  have nh: "\<not> str_in ''http'' (scheme (dump1090_url_of ?env ?opts))"
    unfolding sch by (simp add: str_in_eval)
  have t: "str_in ''tcp'' (scheme (dump1090_url_of ?env ?opts))"
    unfolding sch by (simp add: str_in_eval)
  have np: "\<not> with_pymodes ?env" by (simp add: example_env_def)
  from main_no_decoder [OF example_connects nh t np] t np show ?thesis
    by (simp add: example_cot_url pymodes_diagnostic_def before_def)
qed

text \<open>
  C1, amended. If the scheme of the source URL contains \<open>tcp\<close> and not \<open>http\<close>, and pyModeS
  is not available, then the process terminates with status 1, starts no task and
  constructs no Net Receiver (so it never connects to the source); and when the connection
  to the CoT destination, which \<open>main\<close> makes first, succeeds, the run is exactly: connect
  to the destination, construct the transmitter and the receiver, print the four lines of
  the missing-dependency diagnostic, raise \<open>Exception\<close>.
\<close>

theorem missing_decoder_exits_after_connecting:
  assumes "\<not> str_in ''http'' (scheme (dump1090_url_of env opts))"
    and "str_in ''tcp'' (scheme (dump1090_url_of env opts))"
    and "\<not> with_pymodes env"
  shows "exit_status (snd (main env opts)) = 1
    \<and> started (fst (main env opts)) = []
    \<and> filter is_net_receiver (constructed (fst (main env opts))) = []
    \<and> (protocol_factory env (cot_url_of env opts) \<longrightarrow>
         main env opts =
           ([Protocol_factory (cot_url_of env opts),
             Construct (EventTransmitter Tx_queue), Construct (EventReceiver Rx_queue)]
            @ pymodes_diagnostic, Inl PyException))"
proof (cases "protocol_factory env (cot_url_of env opts)")
  case False
  then show ?thesis by (simp add: main_connect_failed)
next
  case True
  from main_no_decoder [OF True assms] show ?thesis
    by (simp add: pymodes_diagnostic_def)
qed

text \<open>
  The amended C1 at \<open>tcp+beast://piaware.example.com:30005\<close> without pyModeS.
\<close>

theorem missing_decoder_exits_after_connecting_witness:
  "\<not> str_in ''http'' (scheme (dump1090_url_of (example_env False) beast_opts))
   \<and> str_in ''tcp'' (scheme (dump1090_url_of (example_env False) beast_opts))
   \<and> \<not> with_pymodes (example_env False)
   \<and> exit_status (snd (main (example_env False) beast_opts)) = 1
   \<and> started (fst (main (example_env False) beast_opts)) = []
   \<and> main (example_env False) beast_opts =
       ([Protocol_factory (cot_url_of (example_env False) beast_opts),
         Construct (EventTransmitter Tx_queue), Construct (EventReceiver Rx_queue)]
        @ pymodes_diagnostic, Inl PyException)"
proof -
  let ?env = "example_env False"
  let ?opts = "beast_opts"
  have sch: "scheme (dump1090_url_of ?env ?opts) = ''tcp+beast''"
    by (simp add: example_scheme)
  have nh: "\<not> str_in ''http'' (scheme (dump1090_url_of ?env ?opts))"
    unfolding sch by (simp add: str_in_eval)
  have t: "str_in ''tcp'' (scheme (dump1090_url_of ?env ?opts))"
    unfolding sch by (simp add: str_in_eval)
  have np: "\<not> with_pymodes ?env" by (simp add: example_env_def)
  from missing_decoder_exits_after_connecting [OF nh t np] nh t np
    example_connects [of False "cot_url_of ?env ?opts"]
  show ?thesis by blast
qed

subsection \<open>C2: waiting for the first task to complete\<close>

text \<open>
  C2. In a run of \<open>main\<close> that starts tasks, there is exactly one call of
  \<open>asyncio.wait\<close>; it is given all the tasks the run starts, with
  \<open>return_when=FIRST_COMPLETED\<close>, so it returns when the first of them completes, for
  whatever reason. Every task is started before that call. After it the run only reports
  each task of the set \<open>done\<close>, whatever that set is, and returns normally: it starts no
  task again and does nothing to the tasks still pending (the events of a trace are all
  that \<open>main\<close> does, and none of them cancels a task).
\<close>

theorem main_waits_for_first_completed:
  assumes "started (fst (main env opts)) \<noteq> []"
  shows "waited (fst (main env opts)) = [(started (fst (main env opts)), FIRST_COMPLETED)]
    \<and> started (before is_wait (fst (main env opts))) = started (fst (main env opts))
    \<and> after is_wait (fst (main env opts)) =
        map Print_task_completed (wait_done env (started (fst (main env opts))))
    \<and> snd (main env opts) = Inr ()"
proof (cases rule: main_cases [of env opts])
  case connect_failed
  with assms show ?thesis by (simp add: main_connect_failed)
next
  case poll
  then show ?thesis
    by (simp add: main_poll hello_def before_def after_def started_append waited_append reports_only)
next
  case no_decoder
  with assms show ?thesis by (simp add: main_no_decoder pymodes_diagnostic_def)
next
  case no_loop_keyword
  with assms show ?thesis by (simp add: main_no_loop_keyword)
next
  case (bad_tag e)
  with assms show ?thesis by (simp add: main_bad_tag)
next
  case (stream dt)
  then show ?thesis
    by (simp add: main_stream hello_def before_def after_def started_append waited_append reports_only)
next
  case other
  with assms show ?thesis by (simp add: main_other hello_def)
qed

text \<open>
  C2 at \<open>tcp+beast://piaware.example.com:30005\<close> with pyModeS.
\<close>

theorem main_waits_for_first_completed_witness:
  "started (fst (main (example_env True) beast_opts)) \<noteq> []
   \<and> waited (fst (main (example_env True) beast_opts)) =
      [(started (fst (main (example_env True) beast_opts)), FIRST_COMPLETED)]
   \<and> after is_wait (fst (main (example_env True) beast_opts)) =
      map Print_task_completed (wait_done (example_env True)
        (started (fst (main (example_env True) beast_opts))))
   \<and> snd (main (example_env True) beast_opts) = Inr ()"
proof -
  let ?env = "example_env True"
  let ?opts = "beast_opts"
  have h: "started (fst (main ?env ?opts)) \<noteq> []"
    by code_simp
  from main_waits_for_first_completed [OF h] h show ?thesis by blast
qed

subsection \<open>C3: a missing URL\<close>

text \<open>
  C3. If the resolved configuration has no (or an empty) \<open>COT_URL\<close> or
  \<open>DUMP1090_URL\<close>, then \<open>cli\<close> prints two lines, the request to specify the CoT
  destination URL (or, when only the source URL is missing, the Dump1090 source URL) with
  its example, and \<open>See -h for help.\<close>, and calls \<open>sys.exit(1)\<close>: the process ends with
  status 1. Apart from the name of the filter file, which line 128 prints when one is
  configured, these two lines are the whole trace; it consists of \<open>print\<close> calls only, so
  \<open>main\<close> is not entered: no connection, no worker constructed, no task started.
\<close>

theorem cli_missing_url_exits:
  assumes "snd (resolve_config env) = Inr combined_config"
    and "\<not> truthy (chain_get combined_config ''COT_URL'')
         \<or> \<not> truthy (chain_get combined_config ''DUMP1090_URL'')"
  shows "snd (cli env) = Inl (SystemExit 1) \<and> exit_status (snd (cli env)) = 1
    \<and> fst (cli env) = fst (resolve_config env) @
        [Print (if \<not> truthy (chain_get combined_config ''COT_URL'')
                then ''Please specify a CoT Destination URL, for example: '' @ [CHR 0x27]
                  @ ''-U tcp:takserver.example.com:8087'' @ [CHR 0x27]
                else ''Please specify a Dump1090 Source URL, for example: '' @ [CHR 0x27]
                  @ ''-D tcp+beast:piaware.example.com:30005'' @ [CHR 0x27]),
         Print ''See -h for help.'']
    \<and> list_all is_print (fst (cli env))
    \<and> constructed (fst (cli env)) = [] \<and> started (fst (cli env)) = []
    \<and> filter is_protocol_factory (fst (cli env)) = []"
proof -
  obtain t0 where rc: "resolve_config env = (t0, Inr combined_config)"
    using assms(1) by (cases "resolve_config env") simp
  have t0: "list_all is_print t0"
    using resolve_config_prints [of env] by (simp add: rc)
  have c: "snd (cli env) = Inl (SystemExit 1)
    \<and> fst (cli env) = t0 @
        [Print (if \<not> truthy (chain_get combined_config ''COT_URL'')
                then ''Please specify a CoT Destination URL, for example: '' @ [CHR 0x27]
                  @ ''-U tcp:takserver.example.com:8087'' @ [CHR 0x27]
                else ''Please specify a Dump1090 Source URL, for example: '' @ [CHR 0x27]
                  @ ''-D tcp+beast:piaware.example.com:30005'' @ [CHR 0x27]),
         Print ''See -h for help.'']"
    using assms(2)
    by (auto simp add: cli_def rc cot_url_diagnostic_def dump1090_url_diagnostic_def
          apostrophe_def)
  then have p: "list_all is_print (fst (cli env))"
    using t0 by simp
  from c p prints_only [OF p] show ?thesis by (simp add: rc)
qed

text \<open>
  C3 for a configuration whose \<open>[adsbcot]\<close> section holds only \<open>DUMP1090_URL\<close>.
\<close>

theorem cli_missing_url_exits_witness:
  "snd (resolve_config only_source_env)
     = Inr [cli_args only_source_env,
            str_mapping (\<lambda>k. None),
            str_mapping (map_of [(''DUMP1090_URL'', ''tcp+beast://piaware.example.com:30005'')])]
   \<and> snd (cli only_source_env) = Inl (SystemExit 1)
   \<and> exit_status (snd (cli only_source_env)) = 1
   \<and> fst (cli only_source_env) =
       [Print (''Please specify a CoT Destination URL, for example: '' @ [CHR 0x27]
               @ ''-U tcp:takserver.example.com:8087'' @ [CHR 0x27]),
        Print ''See -h for help.'']
   \<and> started (fst (cli only_source_env)) = []"
proof -
  let ?env = "only_source_env"
  let ?cc = "[cli_args ?env, str_mapping (\<lambda>k. None),
      str_mapping (map_of [(''DUMP1090_URL'', ''tcp+beast://piaware.example.com:30005'')])]"
  have rc: "resolve_config ?env = ([], Inr ?cc)"
    by (simp add: resolve_config_def example_cli_env_def cli_args_def str_mapping_def)
  then have r: "snd (resolve_config ?env) = Inr ?cc" by simp
  have n: "\<not> truthy (chain_get ?cc ''COT_URL'')"
    by (simp add: cli_args_def str_mapping_def)
  then have m: "\<not> truthy (chain_get ?cc ''COT_URL'')
      \<or> \<not> truthy (chain_get ?cc ''DUMP1090_URL'')" ..
  note c = cli_missing_url_exits [OF r m]
  from c n have f: "fst (cli ?env) =
       [Print (''Please specify a CoT Destination URL, for example: '' @ [CHR 0x27]
               @ ''-U tcp:takserver.example.com:8087'' @ [CHR 0x27]),
        Print ''See -h for help.'']"
    by (simp add: rc)
  from c f r show ?thesis by blast
qed

subsection \<open>C4: the worker chosen from the scheme\<close>

text \<open>
  C4 as stated fails. It says that a tcp-family scheme constructs a Net Receiver and the
  stream worker. Lines 67 to 72 put a gate before them: without pyModeS the branch prints
  its diagnostic and raises, and for the scheme \<open>tcp+beast\<close> the only workers constructed
  are the transmitter and the receiver.
\<close>

theorem no_decoder_no_net_receiver:
  "scheme (dump1090_url_of (example_env False) beast_opts) = ''tcp+beast''
   \<and> str_in ''tcp'' ''tcp+beast'' \<and> \<not> str_in ''http'' ''tcp+beast''
   \<and> \<not> with_pymodes (example_env False)
   \<and> constructed (fst (main (example_env False) beast_opts)) =
       [EventTransmitter Tx_queue, EventReceiver Rx_queue]
   \<and> snd (main (example_env False) beast_opts) = Inl PyException"
proof -
  let ?env = "example_env False"
  have sch: "scheme (dump1090_url_of ?env beast_opts) = ''tcp+beast''"
    by (simp add: example_scheme)
  have nh: "\<not> str_in ''http'' ''tcp+beast''" by (simp add: str_in_eval)
  have t: "str_in ''tcp'' ''tcp+beast''" by (simp add: str_in_eval)
  have np: "\<not> with_pymodes ?env" by (simp add: example_env_def)
  have m: "main ?env beast_opts =
      ([Protocol_factory (cot_url_of ?env beast_opts),
        Construct (EventTransmitter Tx_queue), Construct (EventReceiver Rx_queue)]
       @ pymodes_diagnostic, Inl PyException)"
    by (rule main_no_decoder) (simp_all add: example_connects sch nh t np)
  from m sch nh t np show ?thesis
    by (simp add: pymodes_diagnostic_def)
qed

text \<open>
  C4, amended. No run constructs more than one ingestion worker. Once the destination is
  connected, a scheme containing \<open>http\<close> constructs, besides the transmitter and the
  receiver, the poll worker \<open>ADSBWorker\<close> alone, with no Net Receiver; a scheme containing
  \<open>tcp\<close> and not \<open>http\<close> constructs the \<open>ADSBNetReceiver\<close> and the stream worker
  \<open>ADSBNetWorker\<close>, both on the queue \<open>net_queue\<close> and both given the tag \<open>dt\<close>, when the
  decoder is present, \<open>asyncio.Queue\<close> takes the keyword \<open>loop\<close> (line 74) and \<open>dt\<close> is the
  tag read from the scheme (lines 76 to 79). What a tcp-family scheme does where line 74
  or line 77 raises is left out.
\<close>

theorem source_worker_selected_by_scheme:
  "length (filter is_source_worker (constructed (fst (main env opts)))) \<le> 1
   \<and> (protocol_factory env (cot_url_of env opts)
       \<and> (str_in ''http'' (scheme (dump1090_url_of env opts))
          \<or> (str_in ''tcp'' (scheme (dump1090_url_of env opts)) \<and> with_pymodes env
              \<and> queue_accepts_loop env
              \<and> data_type_of (scheme (dump1090_url_of env opts)) = Inr dt))
       \<longrightarrow> constructed (fst (main env opts)) =
             [EventTransmitter Tx_queue, EventReceiver Rx_queue]
             @ (if str_in ''http'' (scheme (dump1090_url_of env opts))
                then [poll_worker opts (dump1090_url_of env opts)]
                else [ADSBNetReceiver Net_queue (dump1090_url_of env opts) dt,
                      stream_worker opts dt]))"
proof (cases rule: main_cases [of env opts])
  case connect_failed
  then show ?thesis by (simp add: main_connect_failed)
next
  case poll
  then show ?thesis
    by (simp add: main_poll hello_def constructed_append reports_only)
next
  case no_decoder
  then show ?thesis by (simp add: main_no_decoder pymodes_diagnostic_def)
next
  case no_loop_keyword
  then show ?thesis by (simp add: main_no_loop_keyword)
next
  case (bad_tag e)
  then show ?thesis by (simp add: main_bad_tag)
next
  case (stream dt')
  then show ?thesis
    by (simp add: main_stream hello_def constructed_append reports_only)
next
  case other
  then show ?thesis by (simp add: main_other hello_def)
qed

text \<open>
  The amended C4 at \<open>tcp+beast://piaware.example.com:30005\<close> and at
  \<open>https://piaware.example.com/data/aircraft.json\<close>.
\<close>

theorem source_worker_selected_by_scheme_witness:
  "protocol_factory (example_env True) (cot_url_of (example_env True) beast_opts)
   \<and> str_in ''tcp'' (scheme (dump1090_url_of (example_env True) beast_opts))
   \<and> with_pymodes (example_env True) \<and> queue_accepts_loop (example_env True)
   \<and> data_type_of (scheme (dump1090_url_of (example_env True) beast_opts)) = Inr ''beast''
   \<and> constructed (fst (main (example_env True) beast_opts)) =
       [EventTransmitter Tx_queue, EventReceiver Rx_queue,
        ADSBNetReceiver Net_queue (dump1090_url_of (example_env True) beast_opts) ''beast'',
        stream_worker beast_opts ''beast'']
   \<and> str_in ''http'' (scheme (dump1090_url_of (example_env True) https_opts))
   \<and> constructed (fst (main (example_env True) https_opts)) =
       [EventTransmitter Tx_queue, EventReceiver Rx_queue,
        poll_worker https_opts (dump1090_url_of (example_env True) https_opts)]"
proof -
  let ?env = "example_env True"
  let ?s = "beast_opts"
  let ?p = "https_opts"
  have ss: "scheme (dump1090_url_of ?env ?s) = ''tcp+beast''"
    by (simp add: example_scheme)
  have ps: "scheme (dump1090_url_of ?env ?p) = ''https''"
    by (simp add: example_scheme)
  have nh: "\<not> str_in ''http'' (scheme (dump1090_url_of ?env ?s))"
    unfolding ss by (simp add: str_in_eval)
  have t: "str_in ''tcp'' (scheme (dump1090_url_of ?env ?s))"
    unfolding ss by (simp add: str_in_eval)
  have py: "with_pymodes ?env" by (simp add: example_env_def)
  have ql: "queue_accepts_loop ?env" by (simp add: example_env_def)
  have dt: "data_type_of (scheme (dump1090_url_of ?env ?s)) = Inr ''beast''"
    unfolding ss by (simp add: data_type_of_def str_in_eval)
  have h: "str_in ''http'' (scheme (dump1090_url_of ?env ?p))"
    unfolding ps by (simp add: str_in_eval)
  from source_worker_selected_by_scheme [of ?env ?s "''beast''"]
    source_worker_selected_by_scheme [of ?env ?p "''beast''"]
    nh t py ql dt h example_connects [of True "cot_url_of ?env ?s"]
    example_connects [of True "cot_url_of ?env ?p"]
  show ?thesis by simp
qed

subsection \<open>C5: the sub-format tag\<close>

text \<open>
  C5. In every run, the tag that is passed to a Net Receiver or to a stream worker is the
  tag of the specification for the scheme of the source URL: the substring after the \<open>+\<close>
  when the scheme contains a \<open>+\<close>, and \<open>raw\<close> when it contains none. Whenever one of the
  two is constructed so is the other, on \<open>net_queue\<close> and with the same tag. (Only a
  scheme containing \<open>tcp\<close> and not \<open>http\<close> gets that far, and only with at most one \<open>+\<close>:
  with more, line 77 raises and no tag is passed, see \<open>two_plus_raises\<close>.)
\<close>

theorem sub_format_tag:
  assumes "Construct (ADSBNetReceiver q u dt) \<in> set (fst (main env opts))
         \<or> Construct (ADSBNetWorker q1 q2 dt c f) \<in> set (fst (main env opts))"
  shows "dt = spec_data_type (scheme (dump1090_url_of env opts))
    \<and> str_in ''tcp'' (scheme (dump1090_url_of env opts))
    \<and> constructed (fst (main env opts)) =
        [EventTransmitter Tx_queue, EventReceiver Rx_queue,
         ADSBNetReceiver Net_queue (dump1090_url_of env opts) dt,
         stream_worker opts dt]"
proof (cases rule: main_cases [of env opts])
  case connect_failed
  with assms show ?thesis by (simp add: main_connect_failed)
next
  case poll
  with assms show ?thesis by (auto simp add: main_poll hello_def)
next
  case no_decoder
  with assms show ?thesis by (simp add: main_no_decoder pymodes_diagnostic_def)
next
  case no_loop_keyword
  with assms show ?thesis by (simp add: main_no_loop_keyword)
next
  case (bad_tag e)
  with assms show ?thesis by (simp add: main_bad_tag)
next
  case (stream dt')
  from assms have eq: "dt = dt'"
    by (auto simp add: main_stream [OF stream] hello_def)
  from stream(6) have "dt' = spec_data_type (scheme (dump1090_url_of env opts))"
    by (rule data_type_of_Inr_spec)
  with eq stream(3) show ?thesis
    by (simp add: main_stream [OF stream] hello_def constructed_append reports_only)
next
  case other
  with assms show ?thesis by (simp add: main_other hello_def)
qed

text \<open>
  C5 at the schemes \<open>tcp+beast\<close> (tag \<open>beast\<close>) and \<open>tcp\<close> (tag \<open>raw\<close>).
\<close>

theorem sub_format_tag_witness:
  "Construct (ADSBNetReceiver Net_queue (dump1090_url_of (example_env True) beast_opts) ''beast'')
     \<in> set (fst (main (example_env True) beast_opts))
   \<and> scheme (dump1090_url_of (example_env True) beast_opts) = ''tcp+beast''
   \<and> ''beast'' = spec_data_type (scheme (dump1090_url_of (example_env True) beast_opts))
   \<and> constructed (fst (main (example_env True) beast_opts)) =
       [EventTransmitter Tx_queue, EventReceiver Rx_queue,
        ADSBNetReceiver Net_queue (dump1090_url_of (example_env True) beast_opts) ''beast'',
        stream_worker beast_opts ''beast'']
   \<and> Construct (stream_worker raw_opts ''raw'') \<in> set (fst (main (example_env True) raw_opts))
   \<and> scheme (dump1090_url_of (example_env True) raw_opts) = ''tcp''
   \<and> ''raw'' = spec_data_type (scheme (dump1090_url_of (example_env True) raw_opts))
   \<and> constructed (fst (main (example_env True) raw_opts)) =
       [EventTransmitter Tx_queue, EventReceiver Rx_queue,
        ADSBNetReceiver Net_queue (dump1090_url_of (example_env True) raw_opts) ''raw'',
        stream_worker raw_opts ''raw'']"
proof -
  let ?env = "example_env True"
  have a: "Construct (ADSBNetReceiver Net_queue (dump1090_url_of ?env beast_opts) ''beast'')
      \<in> set (fst (main ?env beast_opts))"
    by code_simp
  have b: "Construct (stream_worker raw_opts ''raw'') \<in> set (fst (main ?env raw_opts))"
    by code_simp
  have ss: "scheme (dump1090_url_of ?env beast_opts) = ''tcp+beast''"
    by (simp add: example_scheme)
  have rs: "scheme (dump1090_url_of ?env raw_opts) = ''tcp''"
    by (simp add: example_scheme)
  from a have a': "Construct (ADSBNetReceiver Net_queue (dump1090_url_of ?env beast_opts) ''beast'')
        \<in> set (fst (main ?env beast_opts))
      \<or> Construct (ADSBNetWorker q1 q2 ''beast'' c f) \<in> set (fst (main ?env beast_opts))"
    for q1 q2 c f ..
  from b have b': "Construct (ADSBNetReceiver q u ''raw'') \<in> set (fst (main ?env raw_opts))
      \<or> Construct (stream_worker raw_opts ''raw'') \<in> set (fst (main ?env raw_opts))"
    for q u ..
  from sub_format_tag [OF a'] sub_format_tag [OF b'] a b ss rs show ?thesis by blast
qed

subsection \<open>C6: the hello event\<close>

text \<open>
  C6 as stated fails. It says that every run of the orchestrator puts exactly one hello
  event on the outbound queue. The put is at line 93, after the connection and the choice
  of the worker: a run that ends before it puts nothing. Without pyModeS the run for
  \<open>tcp://piaware.example.com:30005\<close> stops at the decoder gate of lines 67 to 72, and no
  item has been put on any queue.
\<close>

theorem no_decoder_no_hello:
  "scheme (dump1090_url_of (example_env False) raw_opts) = ''tcp''
   \<and> \<not> with_pymodes (example_env False)
   \<and> filter is_queue_put (fst (main (example_env False) raw_opts)) = []
   \<and> started (fst (main (example_env False) raw_opts)) = []
   \<and> snd (main (example_env False) raw_opts) = Inl PyException"
proof -
  let ?env = "example_env False"
  have sch: "scheme (dump1090_url_of ?env raw_opts) = ''tcp''"
    by (simp add: example_scheme)
  have np: "\<not> with_pymodes ?env" by (simp add: example_env_def)
  have m: "main ?env raw_opts =
      ([Protocol_factory (cot_url_of ?env raw_opts),
        Construct (EventTransmitter Tx_queue), Construct (EventReceiver Rx_queue)]
       @ pymodes_diagnostic, Inl PyException)"
    by (rule main_no_decoder) (simp_all add: example_connects sch np str_in_eval)
  from m sch np show ?thesis
    by (simp add: pymodes_diagnostic_def)
qed

text \<open>
  C6, amended. In every run of the orchestrator that starts the ingestion worker
  (\<open>ADSBWorker\<close> or \<open>ADSBNetWorker\<close>) as a task, exactly one item is put on a queue: the hello
  event for \<open>adsbxcot@\<close> followed by the node name, on the outbound queue \<open>tx_queue\<close>, and
  it is put before that task is started, so before the worker can put anything there;
  nothing is put after. In the other runs nothing is put, or that hello event alone.
\<close>

theorem hello_before_source_worker:
  "(filter is_queue_put (fst (main env opts)) = []
    \<or> filter is_queue_put (fst (main env opts)) = [Queue_put Tx_queue (Hello_event (''adsbxcot@'' @ node env))])
   \<and> (list_ex (starts is_source_worker) (fst (main env opts)) \<longrightarrow>
        filter is_queue_put (fst (main env opts)) = [Queue_put Tx_queue (Hello_event (''adsbxcot@'' @ node env))]
        \<and> filter is_queue_put (before (starts is_source_worker) (fst (main env opts)))
            = [Queue_put Tx_queue (Hello_event (''adsbxcot@'' @ node env))]
        \<and> filter is_queue_put (after (starts is_source_worker) (fst (main env opts))) = [])"
proof (cases rule: main_cases [of env opts])
  case connect_failed
  then show ?thesis by (simp add: main_connect_failed)
next
  case poll
  then show ?thesis
    by (simp add: main_poll hello_def before_def after_def reports_only)
next
  case no_decoder
  then show ?thesis by (simp add: main_no_decoder pymodes_diagnostic_def)
next
  case no_loop_keyword
  then show ?thesis by (simp add: main_no_loop_keyword)
next
  case (bad_tag e)
  then show ?thesis by (simp add: main_bad_tag)
next
  case (stream dt)
  then show ?thesis
    by (simp add: main_stream hello_def before_def after_def reports_only)
next
  case other
  then show ?thesis by (simp add: main_other hello_def)
qed

text \<open>
  The amended C6 at \<open>tcp+beast://piaware.example.com:30005\<close> with pyModeS, on the node \<open>gw\<close>.
\<close>

theorem hello_before_source_worker_witness:
  "list_ex (starts is_source_worker) (fst (main (example_env True) beast_opts))
   \<and> filter is_queue_put (fst (main (example_env True) beast_opts))
      = [Queue_put Tx_queue (Hello_event ''adsbxcot@gw'')]
   \<and> filter is_queue_put (before (starts is_source_worker)
        (fst (main (example_env True) beast_opts)))
      = [Queue_put Tx_queue (Hello_event ''adsbxcot@gw'')]
   \<and> filter is_queue_put (after (starts is_source_worker)
        (fst (main (example_env True) beast_opts))) = []"
proof -
  let ?env = "example_env True"
  let ?opts = "beast_opts"
  have h: "list_ex (starts is_source_worker) (fst (main ?env ?opts))"
    by code_simp
  have n: "''adsbxcot@'' @ node ?env = ''adsbxcot@gw''"
    by (simp add: example_env_def)
  from hello_before_source_worker [of ?env ?opts] h show ?thesis
    unfolding n by blast
qed

subsection \<open>C7: the tasks started\<close>

text \<open>
  C7 as stated fails. Its startup preconditions are those of the specification: both URLs
  present, and the decoder for a stream source. The code chooses the ingestion worker by
  the two tests of lines 58 and 66 and has no branch for any other scheme: with both URLs
  present, the destination connected and pyModeS installed, the run for
  \<open>udp://piaware.example.com:30005\<close> starts no task and never calls \<open>asyncio.wait\<close>.
\<close>

theorem unknown_scheme_starts_nothing:
  "truthy (chain_get udp_opts ''COT_URL'') \<and> truthy (chain_get udp_opts ''DUMP1090_URL'')
   \<and> with_pymodes (example_env True)
   \<and> protocol_factory (example_env True) (cot_url_of (example_env True) udp_opts)
   \<and> scheme (dump1090_url_of (example_env True) udp_opts) = ''udp''
   \<and> started (fst (main (example_env True) udp_opts)) = []
   \<and> waited (fst (main (example_env True) udp_opts)) = []
   \<and> snd (main (example_env True) udp_opts) = Inl UnboundLocalError"
proof -
  let ?env = "example_env True"
  have u: "truthy (chain_get udp_opts ''COT_URL'') \<and> truthy (chain_get udp_opts ''DUMP1090_URL'')"
    by (simp add: example_opts_def str_mapping_def)
  have sch: "scheme (dump1090_url_of ?env udp_opts) = ''udp''"
    by (simp add: example_scheme)
  have py: "with_pymodes ?env" by (simp add: example_env_def)
  have m: "main ?env udp_opts =
      ([Protocol_factory (cot_url_of ?env udp_opts),
        Construct (EventTransmitter Tx_queue), Construct (EventReceiver Rx_queue),
        hello ?env], Inl UnboundLocalError)"
    by (rule main_other) (simp_all add: example_connects sch str_in_eval)
  from m u sch py example_connects [of True "cot_url_of ?env udp_opts"] show ?thesis
    by (simp add: hello_def)
qed

text \<open>
  C7, amended. When the destination is connected and the scheme of the source URL
  contains \<open>http\<close>, or contains \<open>tcp\<close> with the decoder present, \<open>asyncio.Queue\<close> taking the
  keyword \<open>loop\<close> (line 74) and a tag \<open>dt\<close> read from the scheme (lines 76 to 79), the tasks
  \<open>main\<close> starts with \<open>asyncio.ensure_future\<close> are, in order: the Net Receiver (in the stream
  case only), the selected ingestion worker, the receiver and the transmitter. They are
  the workers it constructed, each started once; all are started before the wait, and the
  one call of \<open>asyncio.wait\<close> is given exactly these tasks. These are the inputs on which
  \<open>main\<close> returns (\<open>main_returns_iff\<close>, \<open>data_type_of_Inr_iff\<close>); what it does where line 74
  or line 77 raises is left out.
\<close>

theorem workers_started_and_waited:
  assumes "protocol_factory env (cot_url_of env opts)"
    and "str_in ''http'' (scheme (dump1090_url_of env opts))
         \<or> (str_in ''tcp'' (scheme (dump1090_url_of env opts)) \<and> with_pymodes env
             \<and> queue_accepts_loop env
             \<and> data_type_of (scheme (dump1090_url_of env opts)) = Inr dt)"
  shows "started (fst (main env opts)) =
      (if str_in ''http'' (scheme (dump1090_url_of env opts))
       then [Run (poll_worker opts (dump1090_url_of env opts))]
       else [Run (ADSBNetReceiver Net_queue (dump1090_url_of env opts) dt),
             Run (stream_worker opts dt)])
      @ [Run (EventReceiver Rx_queue), Run (EventTransmitter Tx_queue)]
    \<and> set (started (fst (main env opts))) = set (map Run (constructed (fst (main env opts))))
    \<and> waited (fst (main env opts)) = [(started (fst (main env opts)), FIRST_COMPLETED)]
    \<and> started (before is_wait (fst (main env opts))) = started (fst (main env opts))"
proof (cases "str_in ''http'' (scheme (dump1090_url_of env opts))")
  case True
  from main_poll [OF assms(1) True] True show ?thesis
    by (auto simp add: hello_def before_def started_append constructed_append waited_append
          reports_only)
next
  case False
  with assms(2) have "str_in ''tcp'' (scheme (dump1090_url_of env opts))" "with_pymodes env"
    "queue_accepts_loop env"
    "data_type_of (scheme (dump1090_url_of env opts)) = Inr dt" by simp_all
  from main_stream [OF assms(1) False this] False show ?thesis
    by (auto simp add: hello_def before_def started_append constructed_append waited_append
          reports_only)
qed

text \<open>
  The amended C7 at \<open>tcp+beast://piaware.example.com:30005\<close> and at
  \<open>http://piaware.example.com/data/aircraft.json\<close>.
\<close>

theorem workers_started_and_waited_witness:
  "protocol_factory (example_env True) (cot_url_of (example_env True) beast_opts)
   \<and> str_in ''tcp'' (scheme (dump1090_url_of (example_env True) beast_opts))
   \<and> with_pymodes (example_env True) \<and> queue_accepts_loop (example_env True)
   \<and> data_type_of (scheme (dump1090_url_of (example_env True) beast_opts)) = Inr ''beast''
   \<and> started (fst (main (example_env True) beast_opts)) =
       [Run (ADSBNetReceiver Net_queue (dump1090_url_of (example_env True) beast_opts) ''beast''),
        Run (stream_worker beast_opts ''beast''),
        Run (EventReceiver Rx_queue), Run (EventTransmitter Tx_queue)]
   \<and> waited (fst (main (example_env True) beast_opts)) =
       [(started (fst (main (example_env True) beast_opts)), FIRST_COMPLETED)]
   \<and> str_in ''http'' (scheme (dump1090_url_of (example_env True) http_opts))
   \<and> started (fst (main (example_env True) http_opts)) =
       [Run (poll_worker http_opts (dump1090_url_of (example_env True) http_opts)),
        Run (EventReceiver Rx_queue), Run (EventTransmitter Tx_queue)]"
proof -
  let ?env = "example_env True"
  let ?s = "beast_opts"
  let ?p = "http_opts"
  have ss: "scheme (dump1090_url_of ?env ?s) = ''tcp+beast''"
    by (simp add: example_scheme)
  have ps: "scheme (dump1090_url_of ?env ?p) = ''http''"
    by (simp add: example_scheme)
  have nh: "\<not> str_in ''http'' (scheme (dump1090_url_of ?env ?s))"
    unfolding ss by (simp add: str_in_eval)
  have t: "str_in ''tcp'' (scheme (dump1090_url_of ?env ?s))"
    unfolding ss by (simp add: str_in_eval)
  have py: "with_pymodes ?env" by (simp add: example_env_def)
  have ql: "queue_accepts_loop ?env" by (simp add: example_env_def)
  have dt: "data_type_of (scheme (dump1090_url_of ?env ?s)) = Inr ''beast''"
    unfolding ss by (simp add: data_type_of_def str_in_eval)
  have h: "str_in ''http'' (scheme (dump1090_url_of ?env ?p))"
    unfolding ps by (simp add: str_in_eval)
  have a: "str_in ''http'' (scheme (dump1090_url_of ?env ?s))
      \<or> (str_in ''tcp'' (scheme (dump1090_url_of ?env ?s)) \<and> with_pymodes ?env
          \<and> queue_accepts_loop ?env
          \<and> data_type_of (scheme (dump1090_url_of ?env ?s)) = Inr ''beast'')"
    using t py ql dt by blast
  have b: "str_in ''http'' (scheme (dump1090_url_of ?env ?p))
      \<or> (str_in ''tcp'' (scheme (dump1090_url_of ?env ?p)) \<and> with_pymodes ?env
          \<and> queue_accepts_loop ?env
          \<and> data_type_of (scheme (dump1090_url_of ?env ?p)) = Inr dt)" for dt
    using h by blast
  from workers_started_and_waited [OF example_connects a]
    workers_started_and_waited [OF example_connects b]
    nh t py ql dt h example_connects [of True "cot_url_of ?env ?s"]
  show ?thesis by simp
qed

subsection \<open>C8: a scheme with neither \<open>http\<close> nor \<open>tcp\<close>\<close>

text \<open>
  C8. For a scheme that contains neither \<open>http\<close> nor \<open>tcp\<close>, \<open>main\<close> (the destination
  connecting) prints nothing and raises no configuration error of its own: it connects to
  the destination, constructs the transmitter and the receiver, puts the hello event for
  \<open>adsbxcot@\<close> and the node name on the outbound queue \<open>tx_queue\<close>, and then fails with
  \<open>UnboundLocalError\<close> at line 95, where \<open>message_worker\<close> was never assigned; no task has
  been started.
\<close>

theorem unknown_scheme_unbound_worker:
  assumes "protocol_factory env (cot_url_of env opts)"
    and "\<not> str_in ''http'' (scheme (dump1090_url_of env opts))"
    and "\<not> str_in ''tcp'' (scheme (dump1090_url_of env opts))"
  shows "main env opts =
      ([Protocol_factory (cot_url_of env opts),
        Construct (EventTransmitter Tx_queue), Construct (EventReceiver Rx_queue),
        Queue_put Tx_queue (Hello_event (''adsbxcot@'' @ node env))], Inl UnboundLocalError)
    \<and> filter is_print (fst (main env opts)) = []
    \<and> started (fst (main env opts)) = []"
  using main_other [OF assms] by (simp add: hello_def)

text \<open>
  C8 at \<open>udp://piaware.example.com:30005\<close>, on the node \<open>gw\<close>.
\<close>

theorem unknown_scheme_unbound_worker_witness:
  "protocol_factory (example_env True) (cot_url_of (example_env True) udp_opts)
   \<and> \<not> str_in ''http'' (scheme (dump1090_url_of (example_env True) udp_opts))
   \<and> \<not> str_in ''tcp'' (scheme (dump1090_url_of (example_env True) udp_opts))
   \<and> main (example_env True) udp_opts =
       ([Protocol_factory
           \<lparr>scheme = ''tcp'', url = Some (PStr ''tcp://takserver.example.com:8087'')\<rparr>,
         Construct (EventTransmitter Tx_queue), Construct (EventReceiver Rx_queue),
         Queue_put Tx_queue (Hello_event ''adsbxcot@gw'')], Inl UnboundLocalError)"
proof -
  let ?env = "example_env True" and ?opts = "udp_opts"
  have sch: "scheme (dump1090_url_of ?env ?opts) = ''udp''"
    by (simp add: example_scheme)
  have nh: "\<not> str_in ''http'' (scheme (dump1090_url_of ?env ?opts))"
    unfolding sch by (simp add: str_in_eval)
  have nt: "\<not> str_in ''tcp'' (scheme (dump1090_url_of ?env ?opts))"
    unfolding sch by (simp add: str_in_eval)
  have n: "''adsbxcot@'' @ node ?env = ''adsbxcot@gw''"
    by (simp add: example_env_def)
  from unknown_scheme_unbound_worker [OF example_connects nh nt] nh nt
    example_connects [of True "cot_url_of ?env ?opts"]
  show ?thesis unfolding n example_cot_url by blast
qed

subsection \<open>C9: dispatch by containment\<close>

text \<open>
  C9. The test of the scheme is containment: whatever stands before and after \<open>http\<close> in
  the scheme (an \<open>s\<close> as in \<open>https\<close>, or anything else, \<open>tcp\<close> included), \<open>main\<close> takes the
  poll variant: it constructs and starts \<open>ADSBWorker\<close>, no Net Receiver and no stream
  worker, and the decoder flag is not consulted. The \<open>http\<close> test comes first, so it wins
  for a scheme that contains both \<open>http\<close> and \<open>tcp\<close>.
\<close>

theorem http_substring_selects_poll:
  assumes "protocol_factory env (cot_url_of env opts)"
    and "scheme (dump1090_url_of env opts) = pre @ ''http'' @ suf"
  shows "constructed (fst (main env opts)) =
      [EventTransmitter Tx_queue, EventReceiver Rx_queue,
       poll_worker opts (dump1090_url_of env opts)]
    \<and> started (fst (main env opts)) =
      [Run (poll_worker opts (dump1090_url_of env opts)),
       Run (EventReceiver Rx_queue), Run (EventTransmitter Tx_queue)]
    \<and> snd (main env opts) = Inr ()"
proof -
  have "str_in ''http'' (scheme (dump1090_url_of env opts))"
    unfolding assms(2) str_in_def by (rule sublist_appendI)
  from main_poll [OF assms(1) this] show ?thesis
    by (simp add: hello_def started_append constructed_append reports_only)
qed

text \<open>
  C9 at the scheme \<open>tcp+https\<close>, which contains both, and without pyModeS.
\<close>

theorem http_substring_selects_poll_witness:
  "protocol_factory (example_env False)
     (cot_url_of (example_env False) tcp_https_opts)
   \<and> scheme (dump1090_url_of (example_env False) tcp_https_opts) = ''tcp+'' @ ''http'' @ ''s''
   \<and> str_in ''tcp'' (scheme (dump1090_url_of (example_env False) tcp_https_opts))
   \<and> constructed (fst (main (example_env False) tcp_https_opts)) =
      [EventTransmitter Tx_queue, EventReceiver Rx_queue,
       poll_worker tcp_https_opts
         (dump1090_url_of (example_env False) tcp_https_opts)]
   \<and> snd (main (example_env False) tcp_https_opts) = Inr ()"
proof -
  let ?env = "example_env False"
  let ?opts = "tcp_https_opts"
  have sch: "scheme (dump1090_url_of ?env ?opts) = ''tcp+'' @ ''http'' @ ''s''"
    by (simp add: example_scheme)
  have t: "str_in ''tcp'' (scheme (dump1090_url_of ?env ?opts))"
    unfolding sch by (simp add: str_in_eval)
  from http_substring_selects_poll [OF example_connects sch] sch t
    example_connects [of False "cot_url_of ?env ?opts"]
  show ?thesis by blast
qed

subsection \<open>C10: the Net Receiver starts first\<close>




end
